theory Spec2Isabelle
  imports Main
begin

section \<open>The time-series gateway of \<^verbatim>\<open>src/services/influx.js\<close>\<close>

text \<open>
  The module configures one client of the time-series store and exports three
  functions: \<^verbatim>\<open>writeData\<close>, \<^verbatim>\<open>queryData\<close> and \<^verbatim>\<open>queryLatestDataPoint\<close>.
  The client library, the environment module and the logger are collaborators:
  they appear here as the fields of an environment record, and every call made
  to them is recorded, in order, in a trace.
\<close>

subsection \<open>JavaScript values, errors, completions and promises\<close>

text \<open>
  The values a result row can hold. Numbers are restricted to the integral ones,
  which is all the millisecond arithmetic of \<^verbatim>\<open>Date\<close> needs.
\<close>

datatype js_value = JUndefined | JNull | JBool bool | JNumber int | JString string

text \<open>An error object: its \<^verbatim>\<open>name\<close> and its \<^verbatim>\<open>message\<close>.\<close>

datatype js_error = JsError (name: string) (message: string)

text \<open>How a synchronous call ends: it returns a value or it throws.\<close>

datatype 'a completion = Returns 'a | Throws js_error

text \<open>
  A promise is identified with its eventual settlement; \<open>Pending\<close> is the promise
  that never settles.
\<close>

datatype 'a promise = Fulfilled 'a | Rejected js_error | Pending

text \<open>The result of \<^verbatim>\<open>new Date(v).getTime()\<close>: a millisecond instant or \<^verbatim>\<open>NaN\<close>.\<close>

datatype time_value = NaN | Ms int

type_synonym row = "string \<rightharpoonup> js_value"

text \<open>The object built by \<^verbatim>\<open>queryLatestDataPoint\<close> (lines 84 to 88).\<close>

record latest_point =
  timestamp :: time_value
  symbol :: js_value
  interval :: js_value

subsection \<open>Collaborators and the observable trace\<close>

text \<open>
  Everything the module does to the outside world, in the order it happens:
  calls of the write API and the query API, entries written by the logger,
  and the construction and destruction of the shared HTTP agent.
\<close>

datatype 'p event =
    AgentCreate
  | AgentDestroy
  | WritePoints "'p list"
  | Flush
  | CollectRows string
  | LogError string

text \<open>
  The collaborators. \<open>'p\<close> is the client library's \<^verbatim>\<open>Point\<close> class, which the
  module never inspects; \<open>'s\<close> is the internal state of the client (its write
  buffer and whatever else it keeps). Each client method may throw
  synchronously; \<^verbatim>\<open>flush\<close> and \<^verbatim>\<open>collectRows\<close> otherwise return a promise.
  \<open>Date_parse\<close> is the runtime's date-string parser (\<open>None\<close> for \<^verbatim>\<open>NaN\<close>) and
  \<open>influxBucket\<close> the bucket name exported by \<^verbatim>\<open>../env\<close>.
\<close>

record ('p, 's) env =
  influxBucket :: string
  writeApi_writePoints :: "'p list \<Rightarrow> 's \<Rightarrow> unit completion \<times> 's"
  writeApi_flush :: "'s \<Rightarrow> unit promise completion \<times> 's"
  queryApi_collectRows :: "string \<Rightarrow> 's \<Rightarrow> row list promise completion \<times> 's"
  Date_parse :: "string \<Rightarrow> int option"

text \<open>
  The state the module acts on: the client's state, the trace so far, whether
  the module body has been evaluated, and how many \<^verbatim>\<open>exit\<close> listeners that
  destroy the agent are registered with the process.
\<close>

record ('p, 's) world =
  client :: 's
  trace :: "'p event list"
  loaded :: bool
  exit_listeners :: nat

text \<open>
  Modelled from the spec: \<^verbatim>\<open>../utils/logger\<close> is not among the sources. Its
  \<^verbatim>\<open>error\<close> function is taken to write one log entry holding the message and
  to return. The module reaches it as \<^verbatim>\<open>logger.error\<close> (line 54) and as the
  \<^verbatim>\<open>error\<close> imported on line 5 (line 91).
\<close>

definition logger_error :: "string \<Rightarrow> ('p, 's) world \<Rightarrow> ('p, 's) world" where
  "logger_error msg w = w\<lparr>trace := trace w @ [LogError msg]\<rparr>"

definition call_writePoints ::
  "('p, 's) env \<Rightarrow> 'p list \<Rightarrow> ('p, 's) world \<Rightarrow> unit completion \<times> ('p, 's) world" where
  "call_writePoints e points w =
     (case writeApi_writePoints e points (client w) of
        (r, c) \<Rightarrow> (r, w\<lparr>client := c, trace := trace w @ [WritePoints points]\<rparr>))"

definition call_flush ::
  "('p, 's) env \<Rightarrow> ('p, 's) world \<Rightarrow> unit promise completion \<times> ('p, 's) world" where
  "call_flush e w =
     (case writeApi_flush e (client w) of
        (r, c) \<Rightarrow> (r, w\<lparr>client := c, trace := trace w @ [Flush]\<rparr>))"

definition call_collectRows ::
  "('p, 's) env \<Rightarrow> string \<Rightarrow> ('p, 's) world \<Rightarrow> row list promise completion \<times> ('p, 's) world" where
  "call_collectRows e query w =
     (case queryApi_collectRows e query (client w) of
        (r, c) \<Rightarrow> (r, w\<lparr>client := c, trace := trace w @ [CollectRows query]\<rparr>))"

subsection \<open>Promise combinators and the language's own behaviour\<close>

text \<open>
  An \<^verbatim>\<open>async\<close> function never throws synchronously: a throw in its body rejects
  the promise it returns, and a returned promise is adopted as it is.
\<close>

fun async_return :: "'a promise completion \<Rightarrow> 'a promise" where
  "async_return (Returns p) = p"
| "async_return (Throws err) = Rejected err"

text \<open>\<^verbatim>\<open>p.then(f)\<close> for a callback without side effects.\<close>

fun promise_then :: "('a \<Rightarrow> 'b completion) \<Rightarrow> 'a promise \<Rightarrow> 'b promise" where
  "promise_then f (Fulfilled v) = (case f v of Returns x \<Rightarrow> Fulfilled x | Throws err \<Rightarrow> Rejected err)"
| "promise_then f (Rejected err) = Rejected err"
| "promise_then f Pending = Pending"

text \<open>\<^verbatim>\<open>p.catch(h)\<close> for a handler that acts on the world.\<close>

fun promise_catch ::
  "(js_error \<Rightarrow> 'w \<Rightarrow> 'a completion \<times> 'w) \<Rightarrow> 'a promise \<Rightarrow> 'w \<Rightarrow> 'a promise \<times> 'w" where
  "promise_catch h (Rejected err) w =
     (case h err w of (Returns x, w') \<Rightarrow> (Fulfilled x, w') | (Throws err', w') \<Rightarrow> (Rejected err', w'))"
| "promise_catch h (Fulfilled v) w = (Fulfilled v, w)"
| "promise_catch h Pending w = (Pending, w)"

text \<open>\<^verbatim>\<open>result[0]\<close>: the first element, or \<^verbatim>\<open>undefined\<close> (\<open>None\<close>) out of range.\<close>

fun index0 :: "'a list \<Rightarrow> 'a option" where
  "index0 [] = None"
| "index0 (x # xs) = Some x"

text \<open>
  Reading a property of \<^verbatim>\<open>undefined\<close> throws a \<^verbatim>\<open>TypeError\<close> (the message is
  the one of V8); reading a property an object lacks yields \<^verbatim>\<open>undefined\<close>.
\<close>

definition undefined_read :: "string \<Rightarrow> js_error" where
  "undefined_read p =
     JsError ''TypeError'' (''Cannot read properties of undefined (reading '' @ [CHR 0x27] @ p @ [CHR 0x27] @ '')'')"

definition row_get :: "row \<Rightarrow> string \<Rightarrow> js_value" where
  "row_get r p = (case r p of None \<Rightarrow> JUndefined | Some v \<Rightarrow> v)"

fun get_prop :: "row option \<Rightarrow> string \<Rightarrow> js_value completion" where
  "get_prop None p = Throws (undefined_read p)"
| "get_prop (Some r) p = Returns (row_get r p)"

text \<open>
  \<^verbatim>\<open>new Date(v).getTime()\<close>: a string is parsed, any other value is converted to
  a number; the time value is clipped to the range of \<^verbatim>\<open>Date\<close>.
\<close>

definition TimeClip :: "int \<Rightarrow> time_value" where
  "TimeClip t = (if \<bar>t\<bar> > 8640000000000000 then NaN else Ms t)"

fun Date_getTime :: "(string \<Rightarrow> int option) \<Rightarrow> js_value \<Rightarrow> time_value" where
  "Date_getTime parse JUndefined = NaN"
| "Date_getTime parse JNull = Ms 0"
| "Date_getTime parse (JBool b) = Ms (if b then 1 else 0)"
| "Date_getTime parse (JNumber n) = TimeClip n"
| "Date_getTime parse (JString s) = (case parse s of None \<Rightarrow> NaN | Some t \<Rightarrow> TimeClip t)"

subsection \<open>The write options (lines 7 to 23)\<close>

record write_options =
  batchSize :: nat
  flushInterval :: nat
  maxBufferLines :: nat
  maxRetries :: nat

text \<open>
  The object literal of lines 10 to 23. \<open>flushBatchSize\<close> is
  \<^verbatim>\<open>DEFAULT_WriteOptions.batchSize\<close> of the client library (line 7), a
  parameter here. The module names this object nowhere else.
\<close>

definition writeOptions :: "nat \<Rightarrow> write_options" where
  "writeOptions flushBatchSize =
     \<lparr>batchSize = flushBatchSize + 1,
      flushInterval = 15000,
      maxBufferLines = 30000,
      maxRetries = 0\<rparr>"

text \<open>
  The client library's \<^verbatim>\<open>getWriteApi(org, bucket, precision, writeOptions)\<close>: the
  last argument is optional. The write API works with the options it is given
  and, given none, with the library's \<^verbatim>\<open>DEFAULT_WriteOptions\<close>.
\<close>

definition getWriteApi_options :: "write_options \<Rightarrow> write_options option \<Rightarrow> write_options" where
  "getWriteApi_options DEFAULT_WriteOptions given =
     (case given of None \<Rightarrow> DEFAULT_WriteOptions | Some opts \<Rightarrow> opts)"

text \<open>
  Line 37 is \<^verbatim>\<open>influx.getWriteApi(influxOrg, influxBucket, 'ns')\<close>: three arguments
  and no write options (and line 31 gives none to \<^verbatim>\<open>new InfluxDB\<close> either). These
  are the options the module's write API runs with.
\<close>

definition writeApi_options :: "write_options \<Rightarrow> write_options" where
  "writeApi_options DEFAULT_WriteOptions = getWriteApi_options DEFAULT_WriteOptions None"

text \<open>
  The meaning of \<^verbatim>\<open>flushInterval\<close> as the comment on line 14 gives it: the
  maximum time in milliseconds to keep points in an unflushed batch, where 0
  means that the client does not flush periodically.
\<close>

definition periodic_flush_disabled :: "write_options \<Rightarrow> bool" where
  "periodic_flush_disabled opts = (flushInterval opts = 0)"

subsection \<open>The exported functions\<close>

text \<open>
  \<^verbatim>\<open>writeData\<close> (lines 49 to 57). The \<^verbatim>\<open>try\<close> block covers the two calls, not
  the settlement of the promise that \<^verbatim>\<open>flush\<close> returns: that promise is returned
  without \<^verbatim>\<open>await\<close>.
\<close>

definition writeData_try ::
  "('p, 's) env \<Rightarrow> 'p list \<Rightarrow> ('p, 's) world \<Rightarrow> unit promise completion \<times> ('p, 's) world" where
  "writeData_try e points w =
     (case call_writePoints e points w of
        (Throws err, w1) \<Rightarrow> (Throws err, w1)
      | (Returns u, w1) \<Rightarrow> call_flush e w1)"

definition writeData_catch ::
  "js_error \<Rightarrow> ('p, 's) world \<Rightarrow> unit promise completion \<times> ('p, 's) world" where
  "writeData_catch err w =
     (Throws err, logger_error (''Error writing data points to InfluxDB: '' @ message err) w)"

definition writeData ::
  "('p, 's) env \<Rightarrow> 'p list \<Rightarrow> ('p, 's) world \<Rightarrow> unit promise \<times> ('p, 's) world" where
  "writeData e points w =
     (case (case writeData_try e points w of
              (Throws err, w1) \<Rightarrow> writeData_catch err w1
            | (Returns p, w1) \<Rightarrow> (Returns p, w1)) of
        (r, w2) \<Rightarrow> (async_return r, w2))"

text \<open>\<^verbatim>\<open>queryData\<close> (lines 64 to 66).\<close>

definition queryData ::
  "('p, 's) env \<Rightarrow> string \<Rightarrow> ('p, 's) world \<Rightarrow> row list promise completion \<times> ('p, 's) world" where
  "queryData e query w = call_collectRows e query w"

text \<open>The template literal of lines 74 to 79, with both substitutions.\<close>

definition latest_query_prefix :: "string \<Rightarrow> string" where
  \<open>latest_query_prefix bucket =
     ''\<newline>    from(bucket: "'' @ bucket @ ''")\<newline>      |> range(start: -1h)\<newline>      |> filter(fn: (r) => r._measurement == "''\<close>

definition latest_query_suffix :: string where
  \<open>latest_query_suffix = ''")\<newline>      |> last()\<newline>  ''\<close>

definition latest_query :: "string \<Rightarrow> string \<Rightarrow> string" where
  "latest_query bucket metric = latest_query_prefix bucket @ metric @ latest_query_suffix"

text \<open>The callback given to \<^verbatim>\<open>then\<close> (lines 82 to 89).\<close>

definition latest_of_result :: "(string \<Rightarrow> int option) \<Rightarrow> row list \<Rightarrow> latest_point completion" where
  "latest_of_result parse result =
     (let dataPoint = index0 result in
      case get_prop dataPoint ''_time'' of
        Throws err \<Rightarrow> Throws err
      | Returns t \<Rightarrow>
          (case get_prop dataPoint ''symbol'' of
             Throws err \<Rightarrow> Throws err
           | Returns s \<Rightarrow>
               (case get_prop dataPoint ''interval'' of
                  Throws err \<Rightarrow> Throws err
                | Returns i \<Rightarrow>
                    Returns \<lparr>timestamp = Date_getTime parse t, symbol = s, interval = i\<rparr>)))"

text \<open>The handler given to \<^verbatim>\<open>catch\<close> (lines 90 to 93).\<close>

definition latest_catch ::
  "string \<Rightarrow> js_error \<Rightarrow> ('p, 's) world \<Rightarrow> latest_point completion \<times> ('p, 's) world" where
  "latest_catch metric err w =
     (Throws err,
      logger_error (''Error querying latest data point for metric '' @ metric @ '': '' @ message err) w)"

text \<open>
  \<^verbatim>\<open>queryLatestDataPoint\<close> (lines 73 to 94) is not an \<^verbatim>\<open>async\<close> function: a
  synchronous throw of \<^verbatim>\<open>queryData\<close> leaves it as a throw.
\<close>

definition queryLatestDataPoint ::
  "('p, 's) env \<Rightarrow> string \<Rightarrow> ('p, 's) world \<Rightarrow> latest_point promise completion \<times> ('p, 's) world" where
  "queryLatestDataPoint e metric w =
     (let query = latest_query (influxBucket e) metric in
      case queryData e query w of
        (Throws err, w1) \<Rightarrow> (Throws err, w1)
      | (Returns p, w1) \<Rightarrow>
          (case promise_catch (latest_catch metric) (promise_then (latest_of_result (Date_parse e)) p) w1 of
             (q, w2) \<Rightarrow> (Returns q, w2)))"

subsection \<open>The life of the module inside a process (lines 25 to 41)\<close>

text \<open>
  Evaluating the module body constructs the agent (line 25), builds the client
  and its two APIs around it (lines 31 to 39) and registers one listener for
  the process's \<^verbatim>\<open>exit\<close> event that destroys the agent (line 41).
\<close>

definition module_body :: "('p, 's) world \<Rightarrow> ('p, 's) world" where
  "module_body w =
     w\<lparr>trace := trace w @ [AgentCreate], loaded := True, exit_listeners := exit_listeners w + 1\<rparr>"

text \<open>\<^verbatim>\<open>require\<close> evaluates a module body once and serves later calls from its cache.\<close>

definition require_module :: "('p, 's) world \<Rightarrow> ('p, 's) world" where
  "require_module w = (if loaded w then w else module_body w)"

text \<open>
  How a process ends. When it exits (the event loop runs empty, \<^verbatim>\<open>process.exit\<close>
  is called or an exception stays uncaught) it emits \<^verbatim>\<open>exit\<close> and runs every
  registered listener once. When a signal stops it, no \<^verbatim>\<open>exit\<close> event is emitted
  and no listener runs.
\<close>

datatype ending = Exits | KilledBySignal

definition process_exit :: "('p, 's) world \<Rightarrow> ('p, 's) world" where
  "process_exit w = w\<lparr>trace := trace w @ replicate (exit_listeners w) AgentDestroy\<rparr>"

fun process_end :: "ending \<Rightarrow> ('p, 's) world \<Rightarrow> ('p, 's) world" where
  "process_end Exits w = process_exit w"
| "process_end KilledBySignal w = w"

text \<open>What the rest of the application can do with the module.\<close>

datatype 'p action =
    Require
  | CallWriteData "'p list"
  | CallQueryData string
  | CallQueryLatestDataPoint string

fun run_action :: "('p, 's) env \<Rightarrow> 'p action \<Rightarrow> ('p, 's) world \<Rightarrow> ('p, 's) world" where
  "run_action e Require w = require_module w"
| "run_action e (CallWriteData points) w = snd (writeData e points w)"
| "run_action e (CallQueryData query) w = snd (queryData e query w)"
| "run_action e (CallQueryLatestDataPoint metric) w = snd (queryLatestDataPoint e metric w)"

fun run_actions :: "('p, 's) env \<Rightarrow> 'p action list \<Rightarrow> ('p, 's) world \<Rightarrow> ('p, 's) world" where
  "run_actions e [] w = w"
| "run_actions e (a # as) w = run_actions e as (run_action e a w)"

definition fresh_process :: "'s \<Rightarrow> ('p, 's) world" where
  "fresh_process c = \<lparr>client = c, trace = [], loaded = False, exit_listeners = 0\<rparr>"

text \<open>
  A process that uses the module: the first \<^verbatim>\<open>require\<close> gives access to the
  exported functions, any actions follow, and the process ends in one of the
  two ways.
\<close>

definition process_run ::
  "('p, 's) env \<Rightarrow> 'p action list \<Rightarrow> ending \<Rightarrow> 's \<Rightarrow> ('p, 's) world" where
  "process_run e acts how c = process_end how (run_actions e acts (require_module (fresh_process c)))"

definition agent_events :: "'p event list \<Rightarrow> 'p event list" where
  "agent_events t = filter (\<lambda>ev. ev = AgentCreate \<or> ev = AgentDestroy) t"

subsection \<open>The write buffer of the client\<close>

text \<open>
  Modelled from the spec: the client library, and with it the write buffer
  behind \<^verbatim>\<open>writePoints\<close> and \<^verbatim>\<open>flush\<close>, is not among the sources. The buffer is
  an ordered sequence of points (section 3). Enqueuing appends the points in
  the order given (section 4.1). A flush submits the buffered points to the
  store at once and leaves the buffer empty; with nothing buffered it is a
  no-op (glossary and section 8). \<open>submit\<close> is the store's answer to a batch.
\<close>

definition buffer_writePoints :: "'p list \<Rightarrow> 'p list \<Rightarrow> unit completion \<times> 'p list" where
  "buffer_writePoints points buf = (Returns (), buf @ points)"

definition buffer_flush :: "('p list \<Rightarrow> unit promise) \<Rightarrow> 'p list \<Rightarrow> unit promise completion \<times> 'p list" where
  "buffer_flush submit buf =
     (if buf = [] then (Returns (Fulfilled ()), []) else (Returns (submit buf), []))"

subsection \<open>A fake client\<close>

text \<open>
  A stand-in for the client library, used to run the functions on concrete
  inputs. Its state is the write buffer; points are lines of text. Enqueuing
  appends to the buffer; flushing an empty buffer does nothing and succeeds,
  flushing a non-empty one empties it and ends as \<open>flush_result\<close> says; every
  query ends as \<open>rows_result\<close> says.
\<close>

definition fake_env ::
  "unit promise completion \<Rightarrow> row list promise completion \<Rightarrow> (string, string list) env" where
  "fake_env flush_result rows_result =
     \<lparr>influxBucket = ''crypto'',
      writeApi_writePoints = (\<lambda>points buf. (Returns (), buf @ points)),
      writeApi_flush = (\<lambda>buf. if buf = [] then (Returns (Fulfilled ()), []) else (flush_result, [])),
      queryApi_collectRows = (\<lambda>query buf. (rows_result, buf)),
      Date_parse = (\<lambda>s. if s = ''2024-01-01T00:00:00Z'' then Some 1704067200000 else None)\<rparr>"

section \<open>Properties\<close>

subsection \<open>Unfolding lemmas\<close>

lemmas call_defs = call_writePoints_def call_flush_def call_collectRows_def logger_error_def

lemmas fake_defs = fake_env_def fresh_process_def

lemma latest_of_result_Nil:
  "latest_of_result parse [] = Throws (undefined_read ''_time'')"
  by (simp add: latest_of_result_def)

lemma latest_of_result_Cons:
  "latest_of_result parse (r # rs) =
     Returns \<lparr>timestamp = Date_getTime parse (row_get r ''_time''),
              symbol = row_get r ''symbol'', interval = row_get r ''interval''\<rparr>"
  by (simp add: latest_of_result_def)

lemma queryLatestDataPoint_Throws:
  assumes "queryApi_collectRows e (latest_query (influxBucket e) metric) (client w) = (Throws err, c)"
  shows "queryLatestDataPoint e metric w =
      (Throws err, w\<lparr>client := c, trace := trace w @ [CollectRows (latest_query (influxBucket e) metric)]\<rparr>)"
  using assms by (simp add: queryLatestDataPoint_def queryData_def call_defs)

lemma queryLatestDataPoint_Returns:
  assumes "queryApi_collectRows e (latest_query (influxBucket e) metric) (client w) = (Returns p, c)"
  shows "queryLatestDataPoint e metric w =
      (case promise_catch (latest_catch metric) (promise_then (latest_of_result (Date_parse e)) p)
              (w\<lparr>client := c, trace := trace w @ [CollectRows (latest_query (influxBucket e) metric)]\<rparr>) of
         (q, w2) \<Rightarrow> (Returns q, w2))"
  using assms by (simp add: queryLatestDataPoint_def queryData_def call_defs)

lemma queryLatestDataPoint_rejection_logged:
  assumes "fst (queryLatestDataPoint e metric w) = Returns (Rejected err)"
  shows "trace (snd (queryLatestDataPoint e metric w)) =
          trace w @ [CollectRows (latest_query (influxBucket e) metric),
                     LogError (''Error querying latest data point for metric '' @ metric @ '': '' @ message err)]"
proof -
  obtain r c where rc: "queryApi_collectRows e (latest_query (influxBucket e) metric) (client w) = (r, c)"
    by (cases "queryApi_collectRows e (latest_query (influxBucket e) metric) (client w)")
  show ?thesis
  proof (cases r)
    case (Throws x)
    with rc assms show ?thesis by (simp add: queryLatestDataPoint_Throws)
  next
    case (Returns p)
    note unf = queryLatestDataPoint_Returns [OF rc [unfolded Returns]]
    show ?thesis
    proof (cases p)
      case (Fulfilled rows)
      with unf assms show ?thesis
        by (cases rows) (simp_all add: latest_of_result_Nil latest_of_result_Cons latest_catch_def logger_error_def)
    next
      case (Rejected x)
      with unf assms show ?thesis by (simp add: latest_catch_def logger_error_def)
    next
      case Pending
      with unf assms show ?thesis by simp
    qed
  qed
qed

subsection \<open>The latest-point lookup on an empty result\<close>

text \<open>
  Claim C1, as the code has it: when the query of the latest-point lookup
  fulfils with no rows, \<^verbatim>\<open>result[0]\<close> is \<^verbatim>\<open>undefined\<close> and reading its \<^verbatim>\<open>_time\<close>
  throws inside the \<^verbatim>\<open>then\<close> callback. The returned promise is rejected with that
  \<^verbatim>\<open>TypeError\<close>, after the \<^verbatim>\<open>catch\<close> handler has written one log entry that
  holds the metric name and the error's message. No other error is made.
\<close>

theorem queryLatestDataPoint_empty_result:
  assumes "queryApi_collectRows e (latest_query (influxBucket e) metric) (client w) = (Returns (Fulfilled []), c)"
  shows "queryLatestDataPoint e metric w =
     (Returns (Rejected (undefined_read ''_time'')),
      w\<lparr>client := c,
        trace := trace w @
          [CollectRows (latest_query (influxBucket e) metric),
           LogError (''Error querying latest data point for metric '' @ metric @ '': '' @
                     message (undefined_read ''_time''))]\<rparr>)
     \<and> name (undefined_read ''_time'') = ''TypeError''"
  using assms
  by (simp add: queryLatestDataPoint_def queryData_def call_defs latest_of_result_def
      latest_catch_def undefined_read_def)

theorem queryLatestDataPoint_empty_result_witness:
  "queryApi_collectRows (fake_env (Returns (Fulfilled ())) (Returns (Fulfilled [])))
       (latest_query ''crypto'' ''price'') [] = (Returns (Fulfilled []), [])
   \<and> queryLatestDataPoint (fake_env (Returns (Fulfilled ())) (Returns (Fulfilled []))) ''price'' (fresh_process [])
     = (Returns (Rejected (undefined_read ''_time'')),
        \<lparr>client = [],
         trace = [CollectRows (latest_query ''crypto'' ''price''),
                  LogError (''Error querying latest data point for metric price: '' @
                            message (undefined_read ''_time''))],
         loaded = False, exit_listeners = 0\<rparr>)"
  using queryLatestDataPoint_empty_result
    [of "fake_env (Returns (Fulfilled ())) (Returns (Fulfilled []))" "''price''" "fresh_process []" "[]"]
  by (simp add: fake_defs)

text \<open>
  The lookup for \<^verbatim>\<open>price\<close> against a store that answers with no rows is not
  rejected with an error named \<^verbatim>\<open>EmptyResultError\<close>.
\<close>

theorem queryLatestDataPoint_empty_counterexample:
  "\<not> (\<exists>err. fst (queryLatestDataPoint (fake_env (Returns (Fulfilled ())) (Returns (Fulfilled [])))
                     ''price'' (fresh_process []))
               = Returns (Rejected err) \<and> name err = ''EmptyResultError'')"
  by (simp add: queryLatestDataPoint_def queryData_def call_defs latest_of_result_def
      latest_catch_def undefined_read_def fake_defs)

subsection \<open>A flush that fails\<close>

text \<open>
  Claim C2 at a concrete input: one point is written and the promise returned
  by \<^verbatim>\<open>flush\<close> is rejected with an error whose message is \<^verbatim>\<open>boom\<close>. The promise
  of \<^verbatim>\<open>writeData\<close> is rejected with that error and \<^verbatim>\<open>flush\<close> is called once, but
  the trace holds no log entry: the \<^verbatim>\<open>catch\<close> block of line 53 is never entered,
  because the promise is returned without \<^verbatim>\<open>await\<close>.
\<close>

theorem writeData_rejected_flush_unlogged:
  "writeData (fake_env (Returns (Rejected (JsError ''Error'' ''boom''))) (Returns (Fulfilled [])))
       [''p1''] (fresh_process [])
   = (Rejected (JsError ''Error'' ''boom''),
      \<lparr>client = [], trace = [WritePoints [''p1''], Flush], loaded = False, exit_listeners = 0\<rparr>)"
  by (simp add: writeData_def writeData_try_def writeData_catch_def call_defs fake_defs)

subsection \<open>The options the write API runs with\<close>

text \<open>
  Claim C3 on the code: the write options of lines 10 to 23 never reach the
  client. Whatever the library's defaults are, the write API runs with exactly
  these defaults, which differ from the object of line 10, and its batch-size
  threshold is the default itself, not a value above it. With the defaults of
  the library (batch size 1000, flush interval 60000 ms, 32000 buffered lines,
  5 retries) the periodic flush is not disabled. The object of line 10 would
  not disable it either: its flush interval is 15000 ms, not 0.
\<close>

theorem writeApi_runs_on_default_options:
  "writeApi_options DEFAULT_WriteOptions = DEFAULT_WriteOptions
   \<and> writeApi_options DEFAULT_WriteOptions \<noteq> writeOptions (batchSize DEFAULT_WriteOptions)
   \<and> \<not> batchSize DEFAULT_WriteOptions < batchSize (writeApi_options DEFAULT_WriteOptions)
   \<and> writeApi_options \<lparr>batchSize = 1000, flushInterval = 60000, maxBufferLines = 32000, maxRetries = 5\<rparr>
       = \<lparr>batchSize = 1000, flushInterval = 60000, maxBufferLines = 32000, maxRetries = 5\<rparr>
   \<and> \<not> periodic_flush_disabled
         (writeApi_options \<lparr>batchSize = 1000, flushInterval = 60000, maxBufferLines = 32000, maxRetries = 5\<rparr>)
   \<and> \<not> periodic_flush_disabled (writeOptions (batchSize DEFAULT_WriteOptions))"
proof -
  have same: "writeApi_options d = d" for d
    by (simp add: writeApi_options_def getWriteApi_options_def)
  have "batchSize (writeOptions (batchSize DEFAULT_WriteOptions)) \<noteq> batchSize DEFAULT_WriteOptions"
    by (simp add: writeOptions_def)
  then have differ: "DEFAULT_WriteOptions \<noteq> writeOptions (batchSize DEFAULT_WriteOptions)"
    by auto
  have lit: "\<not> periodic_flush_disabled (writeOptions (batchSize DEFAULT_WriteOptions))"
    by (simp add: periodic_flush_disabled_def writeOptions_def)
  show ?thesis
    using differ lit by (simp add: same periodic_flush_disabled_def)
qed

subsection \<open>Which failures are logged\<close>

lemma writeData_enqueue_Throws:
  assumes "writeApi_writePoints e points (client w) = (Throws err, c1)"
  shows "writeData e points w =
      (Rejected err,
       w\<lparr>client := c1,
         trace := trace w @
           [WritePoints points, LogError (''Error writing data points to InfluxDB: '' @ message err)]\<rparr>)"
  using assms
  by (simp add: writeData_def writeData_try_def writeData_catch_def call_defs)

lemma writeData_flush_Throws:
  assumes "writeApi_writePoints e points (client w) = (Returns u, c1)"
      and "writeApi_flush e c1 = (Throws err, c2)"
  shows "writeData e points w =
      (Rejected err,
       w\<lparr>client := c2,
         trace := trace w @
           [WritePoints points, Flush,
            LogError (''Error writing data points to InfluxDB: '' @ message err)]\<rparr>)"
  using assms
  by (simp add: writeData_def writeData_try_def writeData_catch_def call_defs)

lemma writeData_flush_Returns:
  assumes "writeApi_writePoints e points (client w) = (Returns u, c1)"
      and "writeApi_flush e c1 = (Returns p, c2)"
  shows "writeData e points w =
      (p, w\<lparr>client := c2, trace := trace w @ [WritePoints points, Flush]\<rparr>)"
  using assms
  by (simp add: writeData_def writeData_try_def writeData_catch_def call_defs)

text \<open>
  Claim C4, as the code has it. \<^verbatim>\<open>queryData\<close> hands the result of \<^verbatim>\<open>collectRows\<close>
  on unchanged and writes no log entry. Whenever the promise returned by
  \<^verbatim>\<open>queryLatestDataPoint\<close> is rejected, one log entry with the metric name and the
  error's message has been written after the query call. When the enqueue call
  of \<^verbatim>\<open>writeData\<close> throws, no flush is requested, one log entry with the error's
  message is written and \<^verbatim>\<open>writeData\<close> rejects with that error. When the enqueue
  call returns and the flush call throws, one log entry with the error's message
  is written after the two calls and \<^verbatim>\<open>writeData\<close> rejects with that error.
\<close>

theorem failure_logging_by_operation:
  "fst (queryData e query w) = fst (queryApi_collectRows e query (client w))
   \<and> trace (snd (queryData e query w)) = trace w @ [CollectRows query]
   \<and> (fst (queryLatestDataPoint e metric w) = Returns (Rejected err) \<longrightarrow>
        trace (snd (queryLatestDataPoint e metric w)) =
          trace w @ [CollectRows (latest_query (influxBucket e) metric),
                     LogError (''Error querying latest data point for metric '' @ metric @ '': '' @ message err)])
   \<and> (writeApi_writePoints e points (client w) = (Throws err1, c1) \<longrightarrow>
        writeData e points w =
          (Rejected err1,
           w\<lparr>client := c1,
             trace := trace w @
               [WritePoints points,
                LogError (''Error writing data points to InfluxDB: '' @ message err1)]\<rparr>))
   \<and> (writeApi_writePoints e points' (client w) = (Returns u, c2) \<and>
      writeApi_flush e c2 = (Throws err2, c3) \<longrightarrow>
        writeData e points' w =
          (Rejected err2,
           w\<lparr>client := c3,
             trace := trace w @
               [WritePoints points', Flush,
                LogError (''Error writing data points to InfluxDB: '' @ message err2)]\<rparr>))"
proof -
  have qd: "fst (queryData e query w) = fst (queryApi_collectRows e query (client w))
      \<and> trace (snd (queryData e query w)) = trace w @ [CollectRows query]"
    by (simp add: queryData_def call_defs split: prod.splits)
  have ql: "fst (queryLatestDataPoint e metric w) = Returns (Rejected err) \<longrightarrow>
        trace (snd (queryLatestDataPoint e metric w)) =
          trace w @ [CollectRows (latest_query (influxBucket e) metric),
                     LogError (''Error querying latest data point for metric '' @ metric @ '': '' @ message err)]"
    using queryLatestDataPoint_rejection_logged by blast
  from qd ql writeData_enqueue_Throws [of e points w err1 c1]
    writeData_flush_Throws [of e points' w u c2 err2 c3]
  show ?thesis by blast
qed

text \<open>
  A query that the store rejects: \<^verbatim>\<open>queryData\<close> returns the rejected promise and
  the trace holds the query call only.
\<close>

theorem queryData_failure_unlogged_counterexample:
  "queryData (fake_env (Returns (Fulfilled ())) (Returns (Rejected (JsError ''Error'' ''bad query''))))
       ''from(bucket: x)'' (fresh_process [])
   = (Returns (Rejected (JsError ''Error'' ''bad query'')),
      \<lparr>client = [], trace = [CollectRows ''from(bucket: x)''], loaded = False, exit_listeners = 0\<rparr>)"
  by (simp add: queryData_def call_defs fake_defs)

text \<open>
  The three failures on one client: its queries are rejected, it refuses to
  enqueue the point \<^verbatim>\<open>bad\<close>, and its flush call throws.
\<close>

theorem failure_logging_by_operation_witness:
  "fst (queryLatestDataPoint
          ((fake_env (Throws (JsError ''Error'' ''closed'')) (Returns (Rejected (JsError ''Error'' ''bad query''))))
             \<lparr>writeApi_writePoints := (\<lambda>points buf.
                 if ''bad'' \<in> set points then (Throws (JsError ''Error'' ''invalid point''), buf)
                 else (Returns (), buf @ points))\<rparr>)
          ''price'' (fresh_process []))
     = Returns (Rejected (JsError ''Error'' ''bad query''))
   \<and> trace (snd (queryLatestDataPoint
          ((fake_env (Throws (JsError ''Error'' ''closed'')) (Returns (Rejected (JsError ''Error'' ''bad query''))))
             \<lparr>writeApi_writePoints := (\<lambda>points buf.
                 if ''bad'' \<in> set points then (Throws (JsError ''Error'' ''invalid point''), buf)
                 else (Returns (), buf @ points))\<rparr>)
          ''price'' (fresh_process [])))
     = [CollectRows (latest_query ''crypto'' ''price''),
        LogError ''Error querying latest data point for metric price: bad query'']
   \<and> writeData
          ((fake_env (Throws (JsError ''Error'' ''closed'')) (Returns (Rejected (JsError ''Error'' ''bad query''))))
             \<lparr>writeApi_writePoints := (\<lambda>points buf.
                 if ''bad'' \<in> set points then (Throws (JsError ''Error'' ''invalid point''), buf)
                 else (Returns (), buf @ points))\<rparr>)
          [''p1'', ''bad''] (fresh_process [])
     = (Rejected (JsError ''Error'' ''invalid point''),
        \<lparr>client = [],
         trace = [WritePoints [''p1'', ''bad''],
                  LogError ''Error writing data points to InfluxDB: invalid point''],
         loaded = False, exit_listeners = 0\<rparr>)
   \<and> writeData
          ((fake_env (Throws (JsError ''Error'' ''closed'')) (Returns (Rejected (JsError ''Error'' ''bad query''))))
             \<lparr>writeApi_writePoints := (\<lambda>points buf.
                 if ''bad'' \<in> set points then (Throws (JsError ''Error'' ''invalid point''), buf)
                 else (Returns (), buf @ points))\<rparr>)
          [''p1''] (fresh_process [])
     = (Rejected (JsError ''Error'' ''closed''),
        \<lparr>client = [],
         trace = [WritePoints [''p1''], Flush, LogError ''Error writing data points to InfluxDB: closed''],
         loaded = False, exit_listeners = 0\<rparr>)"
proof -
  let ?e = "(fake_env (Throws (JsError ''Error'' ''closed'')) (Returns (Rejected (JsError ''Error'' ''bad query''))))
             \<lparr>writeApi_writePoints := (\<lambda>points buf.
                 if ''bad'' \<in> set points then (Throws (JsError ''Error'' ''invalid point''), buf)
                 else (Returns (), buf @ points))\<rparr>"
  have q: "fst (queryLatestDataPoint ?e ''price'' (fresh_process [])) = Returns (Rejected (JsError ''Error'' ''bad query''))"
    by (simp add: queryLatestDataPoint_Returns [where c = "[]"] fake_defs latest_catch_def logger_error_def)
  have enq: "writeApi_writePoints ?e [''p1'', ''bad''] (client (fresh_process [])) =
      (Throws (JsError ''Error'' ''invalid point''), [])"
    by (simp add: fake_defs)
  have ok: "writeApi_writePoints ?e [''p1''] (client (fresh_process [])) = (Returns (), [''p1''])"
    by (simp add: fake_defs)
  have fl: "writeApi_flush ?e [''p1''] = (Throws (JsError ''Error'' ''closed''), [])"
    by (simp add: fake_defs)
  note inst = failure_logging_by_operation
      [of ?e "''q''" "fresh_process []" "''price''" "JsError ''Error'' ''bad query''"
          "[''p1'', ''bad'']" "JsError ''Error'' ''invalid point''" "[]"
          "[''p1'']" "()" "[''p1'']" "JsError ''Error'' ''closed''" "[]"]
  from inst q have A: "trace (snd (queryLatestDataPoint ?e ''price'' (fresh_process [])))
     = [CollectRows (latest_query ''crypto'' ''price''),
        LogError ''Error querying latest data point for metric price: bad query'']"
    by (simp add: fake_defs)
  from inst enq have B: "writeData ?e [''p1'', ''bad''] (fresh_process [])
     = (Rejected (JsError ''Error'' ''invalid point''),
        \<lparr>client = [],
         trace = [WritePoints [''p1'', ''bad''],
                  LogError ''Error writing data points to InfluxDB: invalid point''],
         loaded = False, exit_listeners = 0\<rparr>)"
    by (simp add: fresh_process_def)
  from inst ok fl have C: "writeData ?e [''p1''] (fresh_process [])
     = (Rejected (JsError ''Error'' ''closed''),
        \<lparr>client = [],
         trace = [WritePoints [''p1''], Flush, LogError ''Error writing data points to InfluxDB: closed''],
         loaded = False, exit_listeners = 0\<rparr>)"
    by (simp add: fresh_process_def)
  from q A B C show ?thesis by blast
qed

subsection \<open>Writing points\<close>

text \<open>
  Claim C5: for every sequence of points, \<^verbatim>\<open>writeData\<close> hands the sequence to the
  write buffer in one \<^verbatim>\<open>writePoints\<close> call, unchanged and so in the order given;
  when that call returns, the next thing it does is to request a flush, once.
  The promise it returns is the very promise of the flush: fulfilled when the
  flush is fulfilled, rejected with the same error when it is rejected, pending
  as long as it is pending. If the flush call itself throws, the promise is
  rejected with the thrown error.
\<close>

theorem writeData_enqueue_then_flush:
  assumes "writeApi_writePoints e points (client w) = (Returns u, c1)"
  shows "writeData e points w =
     (case writeApi_flush e c1 of
        (Returns p, c2) \<Rightarrow>
          (p, w\<lparr>client := c2, trace := trace w @ [WritePoints points, Flush]\<rparr>)
      | (Throws err, c2) \<Rightarrow>
          (Rejected err,
           w\<lparr>client := c2,
             trace := trace w @
               [WritePoints points, Flush,
                LogError (''Error writing data points to InfluxDB: '' @ message err)]\<rparr>))"
proof (cases "writeApi_flush e c1")
  case (Pair r c2)
  show ?thesis
  proof (cases r)
    case (Returns p)
    with Pair assms show ?thesis by (simp add: writeData_flush_Returns)
  next
    case (Throws err)
    with Pair assms show ?thesis by (simp add: writeData_flush_Throws)
  qed
qed

text \<open>Three points, once with a flush that succeeds and once with one that the store rejects.\<close>

theorem writeData_enqueue_then_flush_witness:
  "writeApi_writePoints (fake_env (Returns (Fulfilled ())) (Returns (Fulfilled []))) [''a'', ''b'', ''c''] []
     = (Returns (), [''a'', ''b'', ''c''])
   \<and> writeData (fake_env (Returns (Fulfilled ())) (Returns (Fulfilled []))) [''a'', ''b'', ''c''] (fresh_process [])
     = (Fulfilled (),
        \<lparr>client = [], trace = [WritePoints [''a'', ''b'', ''c''], Flush], loaded = False, exit_listeners = 0\<rparr>)
   \<and> writeData (fake_env (Returns (Rejected (JsError ''Error'' ''boom''))) (Returns (Fulfilled [])))
        [''a'', ''b'', ''c''] (fresh_process [])
     = (Rejected (JsError ''Error'' ''boom''),
        \<lparr>client = [], trace = [WritePoints [''a'', ''b'', ''c''], Flush], loaded = False, exit_listeners = 0\<rparr>)"
  using writeData_enqueue_then_flush
    [of "fake_env (Returns (Fulfilled ())) (Returns (Fulfilled []))" "[''a'', ''b'', ''c'']"
        "fresh_process []" "()" "[''a'', ''b'', ''c'']"]
    writeData_enqueue_then_flush
    [of "fake_env (Returns (Rejected (JsError ''Error'' ''boom''))) (Returns (Fulfilled []))" "[''a'', ''b'', ''c'']"
        "fresh_process []" "()" "[''a'', ''b'', ''c'']"]
  by (simp add: fake_defs)

subsection \<open>Writing nothing\<close>

lemma queryData_client:
  "client (snd (queryData e query w)) = snd (queryApi_collectRows e query (client w))"
  by (simp add: queryData_def call_defs split: prod.splits)

lemma queryLatestDataPoint_client:
  "client (snd (queryLatestDataPoint e metric w)) =
     snd (queryApi_collectRows e (latest_query (influxBucket e) metric) (client w))"
proof -
  obtain r c where rc: "queryApi_collectRows e (latest_query (influxBucket e) metric) (client w) = (r, c)"
    by (cases "queryApi_collectRows e (latest_query (influxBucket e) metric) (client w)")
  show ?thesis
  proof (cases r)
    case (Throws x)
    with rc show ?thesis by (simp add: queryLatestDataPoint_Throws)
  next
    case (Returns p)
    note unf = queryLatestDataPoint_Returns [OF rc [unfolded Returns]]
    show ?thesis
    proof (cases p)
      case (Fulfilled rows)
      with unf rc show ?thesis
        by (cases rows) (simp_all add: latest_of_result_Nil latest_of_result_Cons latest_catch_def logger_error_def)
    next
      case (Rejected x)
      with unf rc show ?thesis by (simp add: latest_catch_def logger_error_def)
    next
      case Pending
      with unf rc show ?thesis by simp
    qed
  qed
qed

lemma writeData_buffer_emptied:
  assumes "writeApi_writePoints e = buffer_writePoints"
      and "writeApi_flush e = buffer_flush submit"
  shows "client (snd (writeData e points w)) = []"
  using assms
  by (simp add: writeData_def writeData_try_def writeData_catch_def call_defs
      buffer_writePoints_def buffer_flush_def)

lemma run_actions_buffer_empty:
  assumes "writeApi_writePoints e = buffer_writePoints"
      and "writeApi_flush e = buffer_flush submit"
      and "\<forall>query s. snd (queryApi_collectRows e query s) = s"
      and "client w = []"
  shows "client (run_actions e acts w) = []"
  using assms(4)
proof (induction acts arbitrary: w)
  case Nil
  then show ?case by simp
next
  case (Cons a acts)
  have "client (run_action e a w) = []"
  proof (cases a)
    case Require
    with Cons.prems show ?thesis by (simp add: require_module_def module_body_def)
  next
    case (CallWriteData points)
    then show ?thesis using writeData_buffer_emptied [OF assms(1,2)] by simp
  next
    case (CallQueryData query)
    with Cons.prems assms(3) show ?thesis by (simp add: queryData_client)
  next
    case (CallQueryLatestDataPoint metric)
    with Cons.prems assms(3) show ?thesis by (simp add: queryLatestDataPoint_client)
  qed
  from Cons.IH [OF this] show ?case by simp
qed

text \<open>
  Claim C7: \<^verbatim>\<open>writeData\<close> with the empty sequence succeeds, the flush being a
  no-op. On the write buffer of the client, and with queries that leave the
  buffer alone, this holds at every point of every run of a process, whatever
  was written before and however the store answers the batches it is sent: the
  buffer is empty when \<^verbatim>\<open>writeData\<close> is called, enqueuing nothing leaves it empty,
  the flush has nothing to submit, the returned promise is fulfilled, and
  nothing is logged.
\<close>

theorem writeData_empty_succeeds:
  assumes "writeApi_writePoints e = buffer_writePoints"
      and "writeApi_flush e = buffer_flush submit"
      and "\<forall>query s. snd (queryApi_collectRows e query s) = s"
  shows "writeData e [] (run_actions e acts (require_module (fresh_process []))) =
     (Fulfilled (),
      (run_actions e acts (require_module (fresh_process [])))
        \<lparr>trace := trace (run_actions e acts (require_module (fresh_process []))) @ [WritePoints [], Flush]\<rparr>)"
proof -
  let ?w = "run_actions e acts (require_module (fresh_process []))"
  have "client (require_module (fresh_process []) :: ('a, 'a list) world) = []"
    by (simp add: require_module_def module_body_def fresh_process_def)
  from run_actions_buffer_empty [OF assms this] have empty: "client ?w = []" .
  have enq: "writeApi_writePoints e [] (client ?w) = (Returns (), [])"
    by (simp add: assms(1) empty buffer_writePoints_def)
  have fl: "writeApi_flush e [] = (Returns (Fulfilled ()), [])"
    by (simp add: assms(2) buffer_flush_def)
  have "?w\<lparr>client := [], trace := trace ?w @ [WritePoints [], Flush]\<rparr> =
        ?w\<lparr>trace := trace ?w @ [WritePoints [], Flush]\<rparr>"
    using empty by (cases ?w) simp
  with writeData_flush_Returns [OF enq fl] show ?thesis by simp
qed

text \<open>
  A store that rejects every batch: the write of one point is rejected, the
  empty write after it and after a query succeeds.
\<close>

theorem writeData_empty_succeeds_witness:
  "writeApi_writePoints (fake_env (Returns (Rejected (JsError ''Error'' ''boom''))) (Returns (Fulfilled [])))
     = buffer_writePoints
   \<and> writeApi_flush (fake_env (Returns (Rejected (JsError ''Error'' ''boom''))) (Returns (Fulfilled [])))
     = buffer_flush (\<lambda>batch. Rejected (JsError ''Error'' ''boom''))
   \<and> (\<forall>query s. snd (queryApi_collectRows
         (fake_env (Returns (Rejected (JsError ''Error'' ''boom''))) (Returns (Fulfilled []))) query s) = s)
   \<and> fst (writeData (fake_env (Returns (Rejected (JsError ''Error'' ''boom''))) (Returns (Fulfilled [])))
            [''p1''] (require_module (fresh_process [])))
     = Rejected (JsError ''Error'' ''boom'')
   \<and> writeData (fake_env (Returns (Rejected (JsError ''Error'' ''boom''))) (Returns (Fulfilled []))) []
        (run_actions (fake_env (Returns (Rejected (JsError ''Error'' ''boom''))) (Returns (Fulfilled [])))
           [CallWriteData [''p1''], CallQueryData ''q''] (require_module (fresh_process [])))
     = (Fulfilled (),
        \<lparr>client = [],
         trace = [AgentCreate, WritePoints [''p1''], Flush, CollectRows ''q'', WritePoints [], Flush],
         loaded = True, exit_listeners = 1\<rparr>)"
proof -
  let ?e = "fake_env (Returns (Rejected (JsError ''Error'' ''boom''))) (Returns (Fulfilled []))"
  have h1: "writeApi_writePoints ?e = buffer_writePoints"
    by (simp add: fake_env_def buffer_writePoints_def fun_eq_iff)
  have h2: "writeApi_flush ?e = buffer_flush (\<lambda>batch. Rejected (JsError ''Error'' ''boom''))"
    by (simp add: fake_env_def buffer_flush_def fun_eq_iff)
  have h3: "\<forall>query s. snd (queryApi_collectRows ?e query s) = s"
    by (simp add: fake_env_def)
  have before: "run_actions ?e [CallWriteData [''p1''], CallQueryData ''q''] (require_module (fresh_process [])) =
      \<lparr>client = [], trace = [AgentCreate, WritePoints [''p1''], Flush, CollectRows ''q''],
       loaded = True, exit_listeners = 1\<rparr>"
    by (simp add: writeData_def writeData_try_def writeData_catch_def queryData_def call_defs fake_defs
        require_module_def module_body_def)
  have rej: "fst (writeData ?e [''p1''] (require_module (fresh_process []))) = Rejected (JsError ''Error'' ''boom'')"
    by (simp add: writeData_def writeData_try_def writeData_catch_def call_defs fake_defs
        require_module_def module_body_def)
  note inst = writeData_empty_succeeds
      [OF h1 h2 h3, of "[CallWriteData [''p1''], CallQueryData ''q'']", unfolded before]
  have "writeData ?e [] (run_actions ?e [CallWriteData [''p1''], CallQueryData ''q''] (require_module (fresh_process [])))
     = (Fulfilled (),
        \<lparr>client = [],
         trace = [AgentCreate, WritePoints [''p1''], Flush, CollectRows ''q'', WritePoints [], Flush],
         loaded = True, exit_listeners = 1\<rparr>)"
    unfolding before using inst by simp
  with h1 h2 h3 rej show ?thesis by blast
qed

subsection \<open>The shared agent\<close>

lemma agent_events_simps:
  "agent_events [] = []"
  "agent_events (t @ u) = agent_events t @ agent_events u"
  "agent_events [WritePoints ps] = []"
  "agent_events [Flush] = []"
  "agent_events [CollectRows q] = []"
  "agent_events [LogError m] = []"
  "agent_events [AgentCreate] = [AgentCreate]"
  "agent_events [AgentDestroy] = [AgentDestroy]"
  by (simp_all add: agent_events_def)

lemma writeData_world:
  "\<exists>c t. snd (writeData e points w) = w\<lparr>client := c, trace := trace w @ t\<rparr> \<and> agent_events t = []"
proof -
  obtain r1 c1 where wp: "writeApi_writePoints e points (client w) = (r1, c1)"
    by (cases "writeApi_writePoints e points (client w)")
  obtain r2 c2 where fl: "writeApi_flush e c1 = (r2, c2)"
    by (cases "writeApi_flush e c1")
  show ?thesis
  proof (cases r1)
    case (Throws err)
    with wp have "snd (writeData e points w) =
        w\<lparr>client := c1, trace := trace w @ [WritePoints points,
           LogError (''Error writing data points to InfluxDB: '' @ message err)]\<rparr>"
      by (simp add: writeData_def writeData_try_def writeData_catch_def call_defs)
    moreover have "agent_events [WritePoints points,
           LogError (''Error writing data points to InfluxDB: '' @ message err)] = []"
      by (simp add: agent_events_def)
    ultimately show ?thesis by blast
  next
    case (Returns u)
    show ?thesis
    proof (cases r2)
      case (Throws err)
      with wp fl Returns have "snd (writeData e points w) =
          w\<lparr>client := c2, trace := trace w @ [WritePoints points, Flush,
             LogError (''Error writing data points to InfluxDB: '' @ message err)]\<rparr>"
        by (simp add: writeData_def writeData_try_def writeData_catch_def call_defs)
      moreover have "agent_events [WritePoints points, Flush,
             LogError (''Error writing data points to InfluxDB: '' @ message err)] = []"
        by (simp add: agent_events_def)
      ultimately show ?thesis by blast
    next
      case (Returns p)
      with wp fl \<open>r1 = Returns u\<close> have "snd (writeData e points w) =
          w\<lparr>client := c2, trace := trace w @ [WritePoints points, Flush]\<rparr>"
        by (simp add: writeData_def writeData_try_def writeData_catch_def call_defs)
      moreover have "agent_events [WritePoints points, Flush] = []"
        by (simp add: agent_events_def)
      ultimately show ?thesis by blast
    qed
  qed
qed

lemma queryData_world:
  "\<exists>c. snd (queryData e query w) = w\<lparr>client := c, trace := trace w @ [CollectRows query]\<rparr>"
  by (cases "queryApi_collectRows e query (client w)") (auto simp add: queryData_def call_defs)

lemma queryLatestDataPoint_world:
  "\<exists>c t. snd (queryLatestDataPoint e metric w) =
       w\<lparr>client := c, trace := trace w @ CollectRows (latest_query (influxBucket e) metric) # t\<rparr>
     \<and> agent_events t = []"
proof -
  obtain r c where rc: "queryApi_collectRows e (latest_query (influxBucket e) metric) (client w) = (r, c)"
    by (cases "queryApi_collectRows e (latest_query (influxBucket e) metric) (client w)")
  show ?thesis
  proof (cases r)
    case (Throws x)
    with rc have "snd (queryLatestDataPoint e metric w) =
        w\<lparr>client := c, trace := trace w @ CollectRows (latest_query (influxBucket e) metric) # []\<rparr>"
      by (simp add: queryLatestDataPoint_Throws)
    then show ?thesis using agent_events_simps(1) by blast
  next
    case (Returns p)
    note unf = queryLatestDataPoint_Returns [OF rc [unfolded Returns]]
    have logged: "agent_events [LogError m] = []" for m :: string
      by (simp add: agent_events_def)
    show ?thesis
    proof (cases p)
      case (Fulfilled rows)
      show ?thesis
      proof (cases rows)
        case Nil
        with unf Fulfilled have "snd (queryLatestDataPoint e metric w) =
          w\<lparr>client := c, trace := trace w @ CollectRows (latest_query (influxBucket e) metric) #
             [LogError (''Error querying latest data point for metric '' @ metric @ '': '' @
                        message (undefined_read ''_time''))]\<rparr>"
          by (simp add: latest_of_result_Nil latest_catch_def logger_error_def)
        then show ?thesis using logged by blast
      next
        case (Cons a list)
        with unf Fulfilled have "snd (queryLatestDataPoint e metric w) =
          w\<lparr>client := c, trace := trace w @ CollectRows (latest_query (influxBucket e) metric) # []\<rparr>"
          by (simp add: latest_of_result_Cons)
        then show ?thesis using agent_events_simps(1) by blast
      qed
    next
      case (Rejected x)
      with unf have "snd (queryLatestDataPoint e metric w) =
          w\<lparr>client := c, trace := trace w @ CollectRows (latest_query (influxBucket e) metric) #
             [LogError (''Error querying latest data point for metric '' @ metric @ '': '' @ message x)]\<rparr>"
        by (simp add: latest_catch_def logger_error_def)
      then show ?thesis using logged by blast
    next
      case Pending
      with unf have "snd (queryLatestDataPoint e metric w) =
          w\<lparr>client := c, trace := trace w @ CollectRows (latest_query (influxBucket e) metric) # []\<rparr>"
        by simp
      then show ?thesis using agent_events_simps(1) by blast
    qed
  qed
qed

lemma run_action_world:
  assumes "loaded w"
  shows "\<exists>c t. run_action e a w = w\<lparr>client := c, trace := trace w @ t\<rparr> \<and> agent_events t = []"
proof (cases a)
  case Require
  with assms have "run_action e a w = w\<lparr>client := client w, trace := trace w @ []\<rparr>"
    by (simp add: require_module_def)
  then show ?thesis using agent_events_simps(1) by blast
next
  case (CallWriteData points)
  then show ?thesis using writeData_world [of e points w] by simp
next
  case (CallQueryData query)
  have "agent_events [CollectRows query] = []" by (simp add: agent_events_def)
  with CallQueryData show ?thesis using queryData_world [of e query w] by auto
next
  case (CallQueryLatestDataPoint metric)
  obtain c t where ct: "snd (queryLatestDataPoint e metric w) =
       w\<lparr>client := c, trace := trace w @ CollectRows (latest_query (influxBucket e) metric) # t\<rparr>"
     "agent_events t = []"
    using queryLatestDataPoint_world [of e metric w] by blast
  have "agent_events (CollectRows (latest_query (influxBucket e) metric) # t) = []"
    using ct(2) by (simp add: agent_events_def)
  with ct(1) CallQueryLatestDataPoint show ?thesis by auto
qed

lemma run_actions_world:
  assumes "loaded w"
  shows "\<exists>c t. run_actions e acts w = w\<lparr>client := c, trace := trace w @ t\<rparr> \<and> agent_events t = []"
  using assms
proof (induction acts arbitrary: w)
  case Nil
  have "run_actions e [] w = w\<lparr>client := client w, trace := trace w @ []\<rparr>" by simp
  then show ?case using agent_events_simps(1) by blast
next
  case (Cons a acts)
  obtain c t where s1: "run_action e a w = w\<lparr>client := c, trace := trace w @ t\<rparr>" "agent_events t = []"
    using run_action_world [OF Cons.prems, of e a] by blast
  from Cons.prems s1(1) have "loaded (run_action e a w)" by simp
  from Cons.IH [OF this] obtain c' t' where
    s2: "run_actions e acts (run_action e a w) =
           (run_action e a w)\<lparr>client := c', trace := trace (run_action e a w) @ t'\<rparr>"
        "agent_events t' = []"
    by blast
  have "run_actions e (a # acts) w = w\<lparr>client := c', trace := trace w @ (t @ t')\<rparr>"
    using s1(1) s2(1) by simp
  moreover have "agent_events (t @ t') = []"
    using s1(2) s2(2) by (simp add: agent_events_simps)
  ultimately show ?case by blast
qed

text \<open>
  Claim C8, as the code has it: in every run of a process that uses the module,
  whatever calls of the three functions and further \<^verbatim>\<open>require\<close>s happen in
  between, the agent is constructed exactly once, before anything else the
  module does, and no call creates or destroys an agent. When the process
  exits, the \<^verbatim>\<open>exit\<close> listener destroys the agent exactly once, as the last thing;
  when a signal stops the process, the agent is never destroyed.
\<close>

theorem agent_created_once_destroyed_on_exit:
  "agent_events (trace (process_run e acts how c)) =
     (case how of Exits \<Rightarrow> [AgentCreate, AgentDestroy] | KilledBySignal \<Rightarrow> [AgentCreate])
   \<and> hd (trace (process_run e acts how c)) = AgentCreate
   \<and> count_list (trace (process_run e acts how c)) AgentCreate = 1
   \<and> count_list (trace (process_run e acts how c)) AgentDestroy =
       (case how of Exits \<Rightarrow> 1 | KilledBySignal \<Rightarrow> 0)
   \<and> last (trace (process_run e acts Exits c)) = AgentDestroy"
proof -
  let ?w0 = "require_module (fresh_process c) :: ('a, 'b) world"
  have w0: "?w0 = \<lparr>client = c, trace = [AgentCreate], loaded = True, exit_listeners = 1\<rparr>"
    by (simp add: require_module_def module_body_def fresh_process_def)
  then have "loaded ?w0" by simp
  from run_actions_world [OF this, of e acts] obtain c' t where
    r: "run_actions e acts ?w0 = ?w0\<lparr>client := c', trace := trace ?w0 @ t\<rparr>" and t: "agent_events t = []"
    by blast
  have r': "run_actions e acts ?w0 =
      \<lparr>client = c', trace = AgentCreate # t, loaded = True, exit_listeners = 1\<rparr>"
    using r by (simp add: w0)
  have tr: "trace (process_run e acts how c) =
      AgentCreate # t @ (case how of Exits \<Rightarrow> [AgentDestroy] | KilledBySignal \<Rightarrow> [])"
    by (cases how) (simp_all add: process_run_def process_exit_def r')
  have tr_exit: "trace (process_run e acts Exits c) = AgentCreate # t @ [AgentDestroy]"
    by (simp add: process_run_def process_exit_def r')
  have cnt: "count_list u x = length (filter (\<lambda>y. y = x) u)" for u :: "'a event list" and x
    by (induction u) auto
  have f1: "filter (\<lambda>y. y = AgentCreate) t = []" and f2: "filter (\<lambda>y. y = AgentDestroy) t = []"
    using t by (auto simp add: agent_events_def filter_empty_conv)
  show ?thesis
    unfolding tr tr_exit using t f1 f2
    by (cases how) (simp_all add: cnt agent_events_def)
qed

text \<open>
  A process that writes one point and is then stopped by a signal: the agent
  was constructed and is never destroyed.
\<close>

theorem agent_not_destroyed_on_signal_counterexample:
  "trace (process_run (fake_env (Returns (Fulfilled ())) (Returns (Fulfilled [])))
            [CallWriteData [''p1'']] KilledBySignal [])
     = [AgentCreate, WritePoints [''p1''], Flush]
   \<and> count_list (trace (process_run (fake_env (Returns (Fulfilled ())) (Returns (Fulfilled [])))
            [CallWriteData [''p1'']] KilledBySignal [])) AgentDestroy \<noteq> 1"
proof -
  have "trace (process_run (fake_env (Returns (Fulfilled ())) (Returns (Fulfilled [])))
            [CallWriteData [''p1'']] KilledBySignal [])
     = [AgentCreate, WritePoints [''p1''], Flush]"
    by (simp add: process_run_def require_module_def module_body_def writeData_def writeData_try_def
        writeData_catch_def call_defs fake_defs)
  then show ?thesis by simp
qed

subsection \<open>The latest-point lookup\<close>

lemma queryLatestDataPoint_first_call:
  "take 1 (drop (length (trace w)) (trace (snd (queryLatestDataPoint e metric w)))) =
     [CollectRows (latest_query (influxBucket e) metric)]"
proof -
  obtain c t where "snd (queryLatestDataPoint e metric w) =
       w\<lparr>client := c, trace := trace w @ CollectRows (latest_query (influxBucket e) metric) # t\<rparr>"
    using queryLatestDataPoint_world [of e metric w] by blast
  then show ?thesis by simp
qed

text \<open>
  Claim C6: for every metric, the first thing \<^verbatim>\<open>queryLatestDataPoint\<close> does is to
  issue the query of the template: the given bucket, the range starting one hour
  back, the filter that compares the measurement with the metric, and
  \<^verbatim>\<open>last()\<close>. When the query fulfils with at least one row, the returned promise
  is fulfilled with the object whose \<^verbatim>\<open>timestamp\<close> is the first row's \<^verbatim>\<open>_time\<close>
  converted by \<^verbatim>\<open>Date\<close> to milliseconds and whose \<^verbatim>\<open>symbol\<close> and \<^verbatim>\<open>interval\<close> are
  that row's fields as they are; nothing is logged.
\<close>

theorem queryLatestDataPoint_first_row:
  \<open>take 1 (drop (length (trace w)) (trace (snd (queryLatestDataPoint e metric w)))) =
     [CollectRows
        (''\<newline>    from(bucket: "'' @ influxBucket e @ ''")\<newline>      |> range(start: -1h)\<newline>      |> filter(fn: (r) => r._measurement == "'' @ metric @ ''")\<newline>      |> last()\<newline>  '')]
   \<and> (queryApi_collectRows e (latest_query (influxBucket e) metric) (client w) = (Returns (Fulfilled (r # rs)), c) \<longrightarrow>
        queryLatestDataPoint e metric w =
          (Returns (Fulfilled
             \<lparr>timestamp = Date_getTime (Date_parse e) (row_get r ''_time''),
              symbol = row_get r ''symbol'',
              interval = row_get r ''interval''\<rparr>),
           w\<lparr>client := c, trace := trace w @ [CollectRows (latest_query (influxBucket e) metric)]\<rparr>))\<close>
proof -
  have q: \<open>latest_query (influxBucket e) metric =
     ''\<newline>    from(bucket: "'' @ influxBucket e @ ''")\<newline>      |> range(start: -1h)\<newline>      |> filter(fn: (r) => r._measurement == "'' @ metric @ ''")\<newline>      |> last()\<newline>  ''\<close>
    by (simp add: latest_query_def latest_query_prefix_def latest_query_suffix_def)
  have a: "take 1 (drop (length (trace w)) (trace (snd (queryLatestDataPoint e metric w)))) =
     [CollectRows (latest_query (influxBucket e) metric)]"
    by (rule queryLatestDataPoint_first_call)
  have b: "queryLatestDataPoint e metric w =
          (Returns (Fulfilled
             \<lparr>timestamp = Date_getTime (Date_parse e) (row_get r ''_time''),
              symbol = row_get r ''symbol'',
              interval = row_get r ''interval''\<rparr>),
           w\<lparr>client := c, trace := trace w @ [CollectRows (latest_query (influxBucket e) metric)]\<rparr>)"
    if "queryApi_collectRows e (latest_query (influxBucket e) metric) (client w) = (Returns (Fulfilled (r # rs)), c)"
    using that by (simp add: queryLatestDataPoint_Returns latest_of_result_Cons)
  from a b show ?thesis unfolding q by blast
qed

text \<open>
  The scenario of the specification: one row for \<^verbatim>\<open>price\<close> with symbol \<^verbatim>\<open>BTC\<close> and
  interval \<^verbatim>\<open>1m\<close>, recorded at the start of 2024.
\<close>

theorem queryLatestDataPoint_first_row_witness:
  "queryLatestDataPoint
     (fake_env (Returns (Fulfilled ()))
        (Returns (Fulfilled [[''_time'' \<mapsto> JString ''2024-01-01T00:00:00Z'', ''symbol'' \<mapsto> JString ''BTC'',
                              ''interval'' \<mapsto> JString ''1m'', ''_value'' \<mapsto> JNumber 42000]])))
     ''price'' (fresh_process [])
   = (Returns (Fulfilled \<lparr>timestamp = Ms 1704067200000, symbol = JString ''BTC'', interval = JString ''1m''\<rparr>),
      \<lparr>client = [], trace = [CollectRows (latest_query ''crypto'' ''price'')], loaded = False, exit_listeners = 0\<rparr>)"
  using queryLatestDataPoint_first_row
    [of "fresh_process []"
        "fake_env (Returns (Fulfilled ()))
           (Returns (Fulfilled [[''_time'' \<mapsto> JString ''2024-01-01T00:00:00Z'', ''symbol'' \<mapsto> JString ''BTC'',
                              ''interval'' \<mapsto> JString ''1m'', ''_value'' \<mapsto> JNumber 42000]]))"
        "''price''"
        "[''_time'' \<mapsto> JString ''2024-01-01T00:00:00Z'', ''symbol'' \<mapsto> JString ''BTC'',
                              ''interval'' \<mapsto> JString ''1m'', ''_value'' \<mapsto> JNumber 42000]"
        "[]" "[]"]
  by (simp add: fake_defs row_get_def TimeClip_def)

text \<open>
  Claim C10: for every non-empty result the lookup succeeds, whatever the first
  row holds. A missing \<^verbatim>\<open>symbol\<close> or \<^verbatim>\<open>interval\<close> comes out as \<^verbatim>\<open>undefined\<close>, a
  missing \<^verbatim>\<open>_time\<close> or one that does not parse as a date comes out as \<^verbatim>\<open>NaN\<close>;
  no case fails and nothing is logged.
\<close>

theorem queryLatestDataPoint_no_row_validation:
  assumes "queryApi_collectRows e (latest_query (influxBucket e) metric) (client w) = (Returns (Fulfilled (r # rs)), c)"
  shows "queryLatestDataPoint e metric w =
          (Returns (Fulfilled
             \<lparr>timestamp =
                (case r ''_time'' of
                   None \<Rightarrow> NaN
                 | Some (JString s) \<Rightarrow> (case Date_parse e s of None \<Rightarrow> NaN | Some t \<Rightarrow> TimeClip t)
                 | Some v \<Rightarrow> Date_getTime (Date_parse e) v),
              symbol = (case r ''symbol'' of None \<Rightarrow> JUndefined | Some v \<Rightarrow> v),
              interval = (case r ''interval'' of None \<Rightarrow> JUndefined | Some v \<Rightarrow> v)\<rparr>),
           w\<lparr>client := c, trace := trace w @ [CollectRows (latest_query (influxBucket e) metric)]\<rparr>)"
  using assms
  by (simp add: queryLatestDataPoint_Returns latest_of_result_Cons row_get_def
      split: option.splits js_value.splits)

theorem queryLatestDataPoint_no_row_validation_witness:
  "queryApi_collectRows
      (fake_env (Returns (Fulfilled ())) (Returns (Fulfilled [[''_time'' \<mapsto> JString ''yesterday''], Map.empty])))
      (latest_query ''crypto'' ''price'') [] =
     (Returns (Fulfilled [[''_time'' \<mapsto> JString ''yesterday''], Map.empty]), [])
   \<and> queryLatestDataPoint
      (fake_env (Returns (Fulfilled ())) (Returns (Fulfilled [[''_time'' \<mapsto> JString ''yesterday''], Map.empty])))
      ''price'' (fresh_process [])
     = (Returns (Fulfilled \<lparr>timestamp = NaN, symbol = JUndefined, interval = JUndefined\<rparr>),
        \<lparr>client = [], trace = [CollectRows (latest_query ''crypto'' ''price'')], loaded = False, exit_listeners = 0\<rparr>)"
  using queryLatestDataPoint_no_row_validation
    [of "fake_env (Returns (Fulfilled ())) (Returns (Fulfilled [[''_time'' \<mapsto> JString ''yesterday''], Map.empty]))"
        "''price''" "fresh_process []" "[''_time'' \<mapsto> JString ''yesterday'']" "[Map.empty]" "[]"]
  by (simp add: fake_defs)

text \<open>
  Claim C9: for every metric, the query issued by \<^verbatim>\<open>queryLatestDataPoint\<close> is the
  fixed text before the metric, the metric itself, character for character, and
  the fixed text after it. The text between the quote that opens the
  measurement literal and the next double quote is therefore the metric only up
  to its own first double quote: a metric that contains one ends the literal
  early and the rest of it is read as query text.
\<close>

theorem latest_query_splices_metric:
  "take 1 (drop (length (trace w)) (trace (snd (queryLatestDataPoint e metric w)))) =
     [CollectRows (latest_query_prefix (influxBucket e) @ metric @ latest_query_suffix)]
   \<and> take (length metric) (drop (length (latest_query_prefix bucket)) (latest_query bucket metric)) = metric
   \<and> takeWhile (\<lambda>ch. ch \<noteq> CHR 0x22) (drop (length (latest_query_prefix bucket)) (latest_query bucket metric))
       = takeWhile (\<lambda>ch. ch \<noteq> CHR 0x22) metric
   \<and> (CHR 0x22 \<in> set metric \<longrightarrow>
        takeWhile (\<lambda>ch. ch \<noteq> CHR 0x22) (drop (length (latest_query_prefix bucket)) (latest_query bucket metric))
          \<noteq> metric)"
proof -
  have a: "take 1 (drop (length (trace w)) (trace (snd (queryLatestDataPoint e metric w)))) =
     [CollectRows (latest_query_prefix (influxBucket e) @ metric @ latest_query_suffix)]"
    using queryLatestDataPoint_first_call [of w e metric] by (simp add: latest_query_def)
  have d: "drop (length (latest_query_prefix bucket)) (latest_query bucket metric) = metric @ latest_query_suffix"
    by (simp add: latest_query_def)
  have b: "take (length metric) (metric @ latest_query_suffix) = metric" by simp
  have s: "takeWhile (\<lambda>ch. ch \<noteq> CHR 0x22) latest_query_suffix = []"
    by (simp add: latest_query_suffix_def)
  have c: "takeWhile (\<lambda>ch. ch \<noteq> CHR 0x22) (metric @ latest_query_suffix)
       = takeWhile (\<lambda>ch. ch \<noteq> CHR 0x22) metric"
  proof (cases "CHR 0x22 \<in> set metric")
    case True
    then show ?thesis by simp
  next
    case False
    then have all: "\<And>x. x \<in> set metric \<Longrightarrow> x \<noteq> CHR 0x22" by blast
    then have tw: "takeWhile (\<lambda>ch. ch \<noteq> CHR 0x22) metric = metric"
      by (intro takeWhile_eq_all_conv [THEN iffD2]) blast
    from all have ap: "takeWhile (\<lambda>ch. ch \<noteq> CHR 0x22) (metric @ latest_query_suffix) =
        metric @ takeWhile (\<lambda>ch. ch \<noteq> CHR 0x22) latest_query_suffix"
      by (rule takeWhile_append2)
    show ?thesis unfolding ap s tw by simp
  qed
  have f: "takeWhile (\<lambda>ch. ch \<noteq> CHR 0x22) metric \<noteq> metric" if "CHR 0x22 \<in> set metric"
    using that by auto
  from a b c f show ?thesis unfolding d by simp
qed

text \<open>A metric that turns the filter into one that accepts every measurement but one.\<close>

theorem latest_query_splices_metric_witness:
  \<open>CHR 0x22 \<in> set ''x" or r._measurement != "''
   \<and> takeWhile (\<lambda>ch. ch \<noteq> CHR 0x22)
        (drop (length (latest_query_prefix ''crypto'')) (latest_query ''crypto'' ''x" or r._measurement != "''))
       = ''x''
   \<and> latest_query ''crypto'' ''x" or r._measurement != "'' =
       ''\<newline>    from(bucket: "crypto")\<newline>      |> range(start: -1h)\<newline>      |> filter(fn: (r) => r._measurement == "x" or r._measurement != "")\<newline>      |> last()\<newline>  ''\<close>
proof -
  have m: \<open>CHR 0x22 \<in> set ''x" or r._measurement != "''\<close> by simp
  have t: \<open>takeWhile (\<lambda>ch. ch \<noteq> CHR 0x22) ''x" or r._measurement != "'' = ''x''\<close> by simp
  have q: \<open>latest_query ''crypto'' ''x" or r._measurement != "'' =
       ''\<newline>    from(bucket: "crypto")\<newline>      |> range(start: -1h)\<newline>      |> filter(fn: (r) => r._measurement == "x" or r._measurement != "")\<newline>      |> last()\<newline>  ''\<close>
    by (simp add: latest_query_def latest_query_prefix_def latest_query_suffix_def)
  note inst = latest_query_splices_metric
    [of "fresh_process []" "fake_env (Returns (Fulfilled ())) (Returns (Fulfilled []))"
        \<open>''x" or r._measurement != "''\<close> "''crypto''"]
  from inst have \<open>takeWhile (\<lambda>ch. ch \<noteq> CHR 0x22)
        (drop (length (latest_query_prefix ''crypto'')) (latest_query ''crypto'' ''x" or r._measurement != "''))
       = takeWhile (\<lambda>ch. ch \<noteq> CHR 0x22) ''x" or r._measurement != "''\<close>
    by blast
  from this t have \<open>takeWhile (\<lambda>ch. ch \<noteq> CHR 0x22)
        (drop (length (latest_query_prefix ''crypto'')) (latest_query ''crypto'' ''x" or r._measurement != "''))
       = ''x''\<close>
    by (rule trans)
  with m q show ?thesis by blast
qed

end
